theory Spec2Isabelle
  imports Complex_Main
begin

section \<open>JavaScript values\<close>

text \<open>
  The values the player and the local backend handle. A finite number is given by its
  exact value, a rational (the two zeros are one value); \<open>JInfinity True\<close> is
  \<open>Infinity\<close> and \<open>JInfinity False\<close> is \<open>-Infinity\<close>. \<open>JModule k\<close> is a
  reference to the module object registered under key \<open>k\<close>.
\<close>

datatype jsval =
    JUndefined
  | JNull
  | JBool bool
  | JNum rat
  | JNaN
  | JInfinity bool
  | JStr string
  | JModule string

text \<open>ToBoolean: what \<open>if (v)\<close> and \<open>!v\<close> test.\<close>

fun truthy :: "jsval \<Rightarrow> bool" where
  "truthy JUndefined = False"
| "truthy JNull = False"
| "truthy (JBool b) = b"
| "truthy (JNum n) = (n \<noteq> 0)"
| "truthy JNaN = False"
| "truthy (JInfinity p) = True"
| "truthy (JStr s) = (s \<noteq> [])"
| "truthy (JModule k) = True"

text \<open>The operator \<open>===\<close>: same type and same value, \<open>NaN\<close> equal to nothing.\<close>

definition strict_eq :: "jsval \<Rightarrow> jsval \<Rightarrow> bool" where
  "strict_eq a b = (a \<noteq> JNaN \<and> a = b)"

text \<open>
  What a call does: it returns a value, or it throws. Reading a property of
  \<open>undefined\<close> or \<open>null\<close> and calling what is not a function throw
  \<open>TypeError\<close>; reading a name that no declaration binds throws
  \<open>ReferenceError\<close>.
\<close>

datatype 'a outcome = Return 'a | TypeError | ReferenceError

text \<open>
  The numbers \<open>parseInt\<close> and the sum after it produce. The model computes them
  where doubles are exact: an integer of magnitude at most \<open>2^53\<close> is
  \<open>Exact\<close>. Where the result depends on rounding or on the exponent notation of a
  number (\<open>String(1e21)\<close> is \<open>1e+21\<close>, and \<open>parseInt\<close> reads the 1), the model
  says \<open>Undetermined\<close>: some number, about which it claims nothing.
\<close>

datatype number = Exact int | NotANumber | Undetermined

text \<open>
  \<open>parseInt\<close> on a string: leading white space is skipped, then an optional sign, an
  optional \<open>0x\<close> prefix, and the longest run of digits of the radix; no digit gives
  \<open>NaN\<close>. White space is the part of JavaScript's set that fits a Latin-1 character.
\<close>

definition is_ws :: "char \<Rightarrow> bool" where
  "is_ws c = (of_char c \<in> {9, 10, 11, 12, 13, 32, 160 :: nat})"

definition digit_val :: "char \<Rightarrow> nat" where
  "digit_val c =
     (let n = (of_char c :: nat) in
      if 48 \<le> n \<and> n \<le> 57 then n - 48
      else if 97 \<le> n \<and> n \<le> 122 then n - 87
      else if 65 \<le> n \<and> n \<le> 90 then n - 55
      else 36)"

fun digits_value :: "nat \<Rightarrow> nat \<Rightarrow> string \<Rightarrow> nat" where
  "digits_value radix acc [] = acc"
| "digits_value radix acc (c # cs) = digits_value radix (acc * radix + digit_val c) cs"

definition exact :: "int \<Rightarrow> number" where
  "exact n = (if \<bar>n\<bar> \<le> 2 ^ 53 then Exact n else Undetermined)"

definition parse_unsigned :: "bool \<Rightarrow> string \<Rightarrow> number" where
  "parse_unsigned negative s =
     (let (radix, body) =
            (if take 2 s = ''0x'' \<or> take 2 s = ''0X'' then (16, drop 2 s) else (10, s));
          ds = takeWhile (\<lambda>c. digit_val c < radix) body;
          n = int (digits_value radix 0 ds)
      in if ds = [] then NotANumber else exact (if negative then - n else n))"

definition parseInt_string :: "string \<Rightarrow> number" where
  "parseInt_string s =
     (case dropWhile is_ws s of
        [] \<Rightarrow> NotANumber
      | c # cs \<Rightarrow>
          if c = CHR ''-'' then parse_unsigned True cs
          else if c = CHR ''+'' then parse_unsigned False cs
          else parse_unsigned False (c # cs))"

text \<open>
  \<open>parseInt\<close> on a number reads its decimal string. From \<open>10^-6\<close> to \<open>2^53\<close>
  in magnitude the string is in plain notation and its integer part is the number cut
  at the decimal point. Smaller and larger numbers are written with an exponent or are
  not exact, and are left undetermined. The strings of \<open>undefined\<close>, \<open>null\<close>,
  a boolean, \<open>NaN\<close>, an infinity and an object start with no digit.
\<close>

definition toward_zero :: "rat \<Rightarrow> int" where
  "toward_zero x = (if 0 \<le> x then \<lfloor>x\<rfloor> else \<lceil>x\<rceil>)"

fun parseInt :: "jsval \<Rightarrow> number" where
  "parseInt (JNum x) =
     (if x = 0 then Exact 0
      else if 1 / 10 ^ 6 \<le> \<bar>x\<bar> \<and> \<bar>x\<bar> \<le> 2 ^ 53 then Exact (toward_zero x)
      else Undetermined)"
| "parseInt (JStr s) = parseInt_string s"
| "parseInt v = NotANumber"

text \<open>
  The sum \<open>x + d\<close> of such a number and the configured integer \<open>d\<close>: exact while
  both and the sum stay within \<open>2^53\<close>.
\<close>

fun add_number :: "number \<Rightarrow> int \<Rightarrow> number" where
  "add_number (Exact n) d = (if \<bar>d\<bar> \<le> 2 ^ 53 then exact (n + d) else Undetermined)"
| "add_number NotANumber d = NotANumber"
| "add_number Undetermined d = Undetermined"

section \<open>The local backend\<close>

text \<open>Strings are lists of Latin-1 characters.\<close>

subsection \<open>Paths and file names\<close>

text \<open>
  \<open>path.basename\<close> and \<open>path.dirname\<close> of Node on POSIX. Without a suffix the
  base name is the last segment, trailing slashes dropped. A non-empty suffix no longer
  than the path is cut from a base that ends with it and is longer than it; when the
  base is itself the end of the suffix, the slashes after the base come back with it.
\<close>

definition basename_plain :: "string \<Rightarrow> string" where
  "basename_plain p =
     rev (takeWhile (\<lambda>c. c \<noteq> CHR ''/'') (dropWhile (\<lambda>c. c = CHR ''/'') (rev p)))"

definition basename :: "string \<Rightarrow> string \<Rightarrow> string" where
  "basename p ext =
     (if ext = [] \<or> length p < length ext then basename_plain p
      else if ext = p then []
      else
        (let base = basename_plain p in
         if base = [] then p
         else if length ext < length base \<and> drop (length base - length ext) base = ext then
           take (length base - length ext) base
         else if length base < length ext \<and> drop (length ext - length base) ext = base then
           base @ takeWhile (\<lambda>c. c = CHR ''/'') (rev p)
         else base))"

definition dirname :: "string \<Rightarrow> string" where
  "dirname p =
     (case p of
        [] \<Rightarrow> ''.''
      | c # cs \<Rightarrow>
          (case dropWhile (\<lambda>x. x \<noteq> CHR ''/'') (dropWhile (\<lambda>x. x = CHR ''/'') (rev cs)) of
             [] \<Rightarrow> if c = CHR ''/'' then ''/'' else ''.''
           | s # rest \<Rightarrow> if c = CHR ''/'' \<and> rest = [] then ''//'' else c # rev rest))"

text \<open>\<open>String.prototype.split\<close> with a one-character separator, and \<open>trim\<close>.\<close>

fun split_str :: "char \<Rightarrow> string \<Rightarrow> string list" where
  "split_str sep [] = [[]]"
| "split_str sep (c # cs) =
     (if c = sep then [] # split_str sep cs
      else (case split_str sep cs of
              piece # pieces \<Rightarrow> (c # piece) # pieces
            | [] \<Rightarrow> [[c]]))"

definition trim :: "string \<Rightarrow> string" where
  "trim s = rev (dropWhile is_ws (rev (dropWhile is_ws s)))"

text \<open>Reading \<open>xs[i]\<close> of an array of strings: \<open>undefined\<close> past the end.\<close>

definition element :: "string list \<Rightarrow> nat \<Rightarrow> jsval" where
  "element xs i = (if i < length xs then JStr (xs ! i) else JUndefined)"

record metadata =
  artist :: jsval
  title :: jsval
  album :: jsval

definition guessMetadataFromPath :: "string \<Rightarrow> string \<Rightarrow> metadata" where
  "guessMetadataFromPath filePath fileExt =
     (let fileName = basename filePath fileExt;
          splitName = map trim (split_str CHR ''-'' fileName)
      in \<lparr>artist = element splitName 0,
          title = element splitName 1,
          album = JStr (basename_plain (dirname filePath))\<rparr>)"

subsection \<open>Ingestion\<close>

text \<open>
  What the probe reports about a file, and the document \<open>insertSong\<close> builds from it
  and hands to the upsert under the key \<open>filename\<close>. \<open>a || b\<close> is \<open>a\<close> when
  \<open>a\<close> is truthy and \<open>b\<close> otherwise.
\<close>

record probeData =
  file' :: string
  fileext :: string
  TITLE :: jsval
  ARTIST :: jsval
  ALBUM :: jsval
  format_duration :: rat
  format_name :: string

record songDoc =
  title :: jsval
  artist :: jsval
  album :: jsval
  duration :: rat
  format :: string
  filename :: string

definition or_else :: "jsval \<Rightarrow> jsval \<Rightarrow> jsval" where
  "or_else a b = (if truthy a then a else b)"

definition insertSong :: "probeData \<Rightarrow> songDoc" where
  "insertSong pd =
     (let guessMetadata = guessMetadataFromPath (file' pd) (fileext pd)
      in \<lparr>songDoc.title = or_else (TITLE pd) (metadata.title guessMetadata),
          songDoc.artist = or_else (ARTIST pd) (metadata.artist guessMetadata),
          songDoc.album = or_else (ALBUM pd) (metadata.album guessMetadata),
          duration = format_duration pd * 1000,
          format = format_name pd,
          filename = file' pd\<rparr>)"

subsection \<open>The object behind \<open>self\<close>\<close>

text \<open>
  \<open>isPrepared\<close>, \<open>prepare\<close> and \<open>search\<close> are arrow functions written at
  the top of the module, so their \<open>this\<close>, which \<open>self\<close> is set to, is the
  \<open>this\<close> of the module scope whatever object they are called on: the module's
  first exports object, which the file never gives a property. A property of that
  object is \<open>None\<close> while it is \<open>undefined\<close>, and \<open>methods\<close> names the
  properties that hold a function. The state also holds the handles \<open>prepare\<close>
  attached and what was passed to the callers' callbacks.

  Every call of \<open>prepare\<close> that starts preparing creates one handle: the object put in
  \<open>song.prepare\<close> with the variables \<open>canceled\<close> and \<open>cancelEncode\<close> its
  \<open>cancel\<close> function closes over. \<open>finding\<close> says that the callback of
  \<open>SongModel.findById\<close> has not run yet, \<open>cancelEncode\<close> that \<open>encodeSong\<close>
  returned and its cancel function was kept, \<open>encodeCanceled\<close> that this function
  was called. Each caller is known by a number.
\<close>

record localConfig =
  searchResultCnt :: int
  maxScore :: rat

datatype callbackArgs = Done bool | Failed string

record handle =
  songId :: string
  caller :: nat
  canceled :: bool
  cancelEncode :: bool
  encodeCanceled :: bool
  finding :: bool

record localState =
  songCachePath :: "string option"
  config :: "localConfig option"
  songsPreparing :: "(string \<Rightarrow> nat option) option"
  methods :: "string list"
  handles :: "handle list"
  calls :: "(nat \<times> callbackArgs) list"

definition moduleThis :: localState where
  "moduleThis =
     \<lparr>songCachePath = None, config = None, songsPreparing = None, methods = [],
      handles = [], calls = []\<rparr>"

subsection \<open>Preparation\<close>

text \<open>
  \<open>isPrepared\<close> joins \<open>this.songCachePath\<close>, \<open>local\<close> and the file name;
  \<open>path.join\<close> throws \<open>TypeError\<close> on an argument that is not a string.
  \<open>existsSync\<close> is the file system's answer for the joined pieces.
\<close>

definition isPrepared :: "(string list \<Rightarrow> bool) \<Rightarrow> string \<Rightarrow> localState \<Rightarrow> bool outcome" where
  "isPrepared existsSync sid st =
     (case songCachePath st of
        None \<Rightarrow> TypeError
      | Some p \<Rightarrow> Return (existsSync [p, ''local'', sid @ ''.opus'']))"

text \<open>
  \<open>prepare\<close> first reads \<open>self.songsPreparing[song.songId]\<close>, which throws when
  \<open>self.songsPreparing\<close> is \<open>undefined\<close>. The call \<open>self.isPrepared(song)\<close>
  throws when \<open>self\<close> has no such function.
\<close>

definition prepare ::
  "(string list \<Rightarrow> bool) \<Rightarrow> nat \<Rightarrow> string \<Rightarrow> localState \<Rightarrow> unit outcome \<times> localState" where
  "prepare existsSync c sid st =
     (case songsPreparing st of
        None \<Rightarrow> (TypeError, st)
      | Some preparing \<Rightarrow>
          if preparing sid \<noteq> None then (Return (), st\<lparr>calls := calls st @ [(c, Done False)]\<rparr>)
          else if ''isPrepared'' \<notin> set (methods st) then (TypeError, st)
          else
            (case isPrepared existsSync sid st of
               Return True \<Rightarrow> (Return (), st\<lparr>calls := calls st @ [(c, Done True)]\<rparr>)
             | Return False \<Rightarrow>
                 (Return (),
                  st\<lparr>handles := handles st @
                        [\<lparr>songId = sid, caller = c, canceled = False, cancelEncode = False,
                          encodeCanceled = False, finding = True\<rparr>],
                     songsPreparing := Some (preparing(sid \<mapsto> length (handles st)))\<rparr>)
             | TypeError \<Rightarrow> (TypeError, st)
             | ReferenceError \<Rightarrow> (ReferenceError, st)))"







subsection \<open>Search\<close>

text \<open>
  The callback of \<open>SongModel.find(q).exec\<close> on the items the store returns. For
  each item it reads \<open>self.config.searchResultCnt\<close>, which throws when
  \<open>self.config\<close> is \<open>undefined\<close>; with no item nothing is read.
  \<open>results.songs\<close> is an object keyed by \<open>_id\<close>: an assignment to a key it has
  replaces the value in place, a new key goes to the end. Scores are exact fractions.
\<close>

record storedSong = songDoc +
  doc_id :: string

record searchResult =
  artist :: jsval
  title :: jsval
  album :: jsval
  albumArt :: jsval
  duration :: rat
  songId :: string
  score :: rat
  backendName :: string
  format :: string

fun assign :: "string \<Rightarrow> 'v \<Rightarrow> (string \<times> 'v) list \<Rightarrow> (string \<times> 'v) list" where
  "assign k v [] = [(k, v)]"
| "assign k v ((k', v') # kvs) =
     (if k' = k then (k, v) # kvs else (k', v') # assign k v kvs)"

definition eachItem ::
  "localConfig \<Rightarrow> nat \<Rightarrow> storedSong \<Rightarrow> nat \<times> (string \<times> searchResult) list \<Rightarrow>
   nat \<times> (string \<times> searchResult) list" where
  "eachItem cfg numItems s acc =
     (case acc of (cur, songs) \<Rightarrow>
        if int (length songs) \<le> searchResultCnt cfg then
          (Suc cur,
           assign (doc_id s)
             \<lparr>searchResult.artist = songDoc.artist s,
              searchResult.title = songDoc.title s,
              searchResult.album = songDoc.album s,
              albumArt = JNull,
              searchResult.duration = songDoc.duration s,
              searchResult.songId = doc_id s,
              score = maxScore cfg * (of_nat numItems - of_nat cur) / of_nat numItems,
              backendName = ''local'',
              searchResult.format = ''opus''\<rparr>
             songs)
        else (cur, songs))"

definition search :: "storedSong list \<Rightarrow> localState \<Rightarrow> (string \<times> searchResult) list outcome" where
  "search items st =
     (case items of
        [] \<Rightarrow> Return []
      | item # rest \<Rightarrow>
          (case config st of
             None \<Rightarrow> TypeError
           | Some cfg \<Rightarrow> Return (snd (fold (eachItem cfg (length items)) items (0, [])))))"

section \<open>The player state\<close>

text \<open>
  A queued song is the object of the request after \<open>_initializeSong\<close>. The vote
  objects are kept as their key lists, \<open>playbackStart\<close> is \<open>None\<close> for
  \<open>null\<close> and \<open>Some t\<close> for the date taken at time \<open>t\<close>.
\<close>

record song =
  title :: jsval
  id' :: jsval
  duration :: jsval
  backend :: string
  upVotes :: "string list"
  downVotes :: "string list"
  oldness :: int
  playbackStart :: "nat option"

text \<open>
  The callbacks the player hands out and that have not run yet: the two continuations
  of a \<open>prepareSong\<close> call on the now-playing song (they close over
  \<open>startPlayingNext\<close>), those of the call on the head of the queue, and the function
  given to \<open>setTimeout\<close> with its delay.
\<close>

datatype pending =
    PrepareNowPlaying string jsval bool
  | PrepareNext string jsval
  | SongTimer number

datatype event =
    Dispatched string
  | Invoked string string

record playerState =
  queue :: "song list"
  nowPlaying :: "song option"
  waiting :: "pending list"
  trace :: "event list"

text \<open>
  A hook sees the queue, the now-playing slot and the second argument of the call, and
  returns a value; hooks do not write the player state. A module maps a hook name to its
  implementation, if it has one. \<open>modules\<close> lists the module object's properties in
  the order \<open>_.find\<close> visits them.
\<close>

datatype hookArg = NoArg | SongArg song | IndexArg nat | NameArg string

type_synonym hook = "song list \<Rightarrow> song option \<Rightarrow> hookArg \<Rightarrow> jsval"

type_synonym module = "string \<Rightarrow> hook option"

record config =
  modules :: "(string \<times> module) list"
  backends :: "string list"
  songDelayMs :: int

section \<open>Hook dispatch\<close>

text \<open>
  \<open>_.find\<close> over the modules: the predicate calls the module's hook when it has one,
  and the first module for which the predicate is truthy is the result, \<open>undefined\<close>
  when there is none. The first component lists the modules whose hook ran.
\<close>

fun find_module :: "string \<Rightarrow> (hook \<Rightarrow> jsval) \<Rightarrow> (string \<times> module) list \<Rightarrow> string list \<times> jsval" where
  "find_module h call [] = ([], JUndefined)"
| "find_module h call ((k, m) # ms) =
     (case m h of
        None \<Rightarrow> find_module h call ms
      | Some f \<Rightarrow>
          if truthy (call f) then ([k], JModule k)
          else (case find_module h call ms of (ks, r) \<Rightarrow> (k # ks, r)))"

definition callHooks :: "config \<Rightarrow> string \<Rightarrow> hookArg \<Rightarrow> playerState \<Rightarrow> jsval \<times> playerState" where
  "callHooks cfg h arg st =
     (let r = find_module h (\<lambda>f. f (queue st) (nowPlaying st) arg) (modules cfg)
      in (snd r, st\<lparr>trace := trace st @ Dispatched h # map (Invoked h) (fst r)\<rparr>))"

section \<open>Queue operations\<close>

fun searchList :: "jsval \<Rightarrow> song list \<Rightarrow> song option" where
  "searchList songID [] = None"
| "searchList songID (s # ss) =
     (if strict_eq (id' s) songID then Some s else searchList songID ss)"

definition searchQueue :: "jsval \<Rightarrow> playerState \<Rightarrow> song option" where
  "searchQueue songID st =
     (case searchList songID (queue st) of
        Some s \<Rightarrow> Some s
      | None \<Rightarrow>
          (case nowPlaying st of
             Some np \<Rightarrow> if strict_eq (id' np) songID then Some np else None
           | None \<Rightarrow> None))"

fun spliceFirst :: "jsval \<Rightarrow> song list \<Rightarrow> song list" where
  "spliceFirst songID [] = []"
| "spliceFirst songID (s # ss) =
     (if strict_eq (id' s) songID then ss else s # spliceFirst songID ss)"

definition removeFromQueue :: "jsval \<Rightarrow> playerState \<Rightarrow> playerState" where
  "removeFromQueue songID st = st\<lparr>queue := spliceFirst songID (queue st)\<rparr>"

definition initializeSong :: "song \<Rightarrow> playerState \<Rightarrow> song \<times> playerState" where
  "initializeSong s st =
     (let s' = s\<lparr>upVotes := [], downVotes := [], oldness := 0, playbackStart := None\<rparr>
      in (s', st\<lparr>queue := queue st @ [s']\<rparr>))"

text \<open>
  \<open>backends[name].prepareSong(id, onPrepared, onError)\<close>: reading \<open>prepareSong\<close> of
  an unregistered backend throws; a registered backend keeps the two callbacks and calls
  one of them later.
\<close>

definition prepareSong :: "config \<Rightarrow> string \<Rightarrow> pending \<Rightarrow> playerState \<Rightarrow> unit outcome \<times> playerState" where
  "prepareSong cfg name p st =
     (if name \<in> set (backends cfg) then (Return (), st\<lparr>waiting := waiting st @ [p]\<rparr>)
      else (TypeError, st))"

definition onQueueModify :: "config \<Rightarrow> playerState \<Rightarrow> unit outcome \<times> playerState" where
  "onQueueModify cfg st =
     (case queue st of
        [] \<Rightarrow> (Return (), snd (callHooks cfg ''onEndOfQueue'' NoArg st))
      | q # qs \<Rightarrow>
          (case nowPlaying st of
             None \<Rightarrow>
               prepareSong cfg (backend q) (PrepareNowPlaying (backend q) (id' q) True)
                 (removeFromQueue (id' q) (st\<lparr>nowPlaying := Some q, queue := qs\<rparr>))
           | Some np \<Rightarrow>
               prepareSong cfg (backend np) (PrepareNowPlaying (backend np) (id' np) False) st))"

text \<open>
  \<open>_addToQueue\<close> reads the user id from \<open>req.body.userID\<close>. No declaration of
  the file binds the name \<open>req\<close> (its other uses are inside comments), so the read
  throws \<open>ReferenceError\<close>.
\<close>

definition req_body_userID :: "jsval outcome" where
  "req_body_userID = ReferenceError"

definition addToQueue :: "config \<Rightarrow> song \<Rightarrow> playerState \<Rightarrow> jsval outcome \<times> playerState" where
  "addToQueue cfg s st =
     (if \<not> truthy (title s) \<or> \<not> truthy (id' s) \<or> \<not> truthy (duration s) then
        (Return (JStr ''required song fields not provided''), st)
      else
        (case req_body_userID of
           TypeError \<Rightarrow> (TypeError, st)
         | ReferenceError \<Rightarrow> (ReferenceError, st)
         | Return userID \<Rightarrow>
             if \<not> truthy userID then (Return (JStr ''invalid userID''), st)
             else
               (case searchQueue (id' s) st of
                  Some queuedSong \<Rightarrow> (Return (JStr ''duplicate songID''), st)
                | None \<Rightarrow>
                    (let (err, st1) = callHooks cfg ''preSongQueued'' (SongArg s) st in
                     if truthy err then (Return err, st1)
                     else
                       (let (queuedSong, st2) = initializeSong s st1;
                            (r, st3) = onQueueModify cfg st2
                        in case r of
                             TypeError \<Rightarrow> (TypeError, st3)
                           | ReferenceError \<Rightarrow> (ReferenceError, st3)
                           | Return u \<Rightarrow>
                               (Return JUndefined,
                                snd (callHooks cfg ''postSongQueued'' (SongArg queuedSong)
                                       st3)))))))"

section \<open>Callbacks\<close>

text \<open>
  The continuations of \<open>_onQueueModify\<close>. Each reads \<open>_playerState\<close> when it
  runs; reading a property of an empty now-playing slot, or of the head of an empty
  queue, throws. \<open>now\<close> is the time \<open>new Date()\<close> returns.
\<close>

definition prepareNext :: "config \<Rightarrow> playerState \<Rightarrow> unit outcome \<times> playerState" where
  "prepareNext cfg st =
     (case queue st of
        q # qs \<Rightarrow> prepareSong cfg (backend q) (PrepareNext (backend q) (id' q)) st
      | [] \<Rightarrow> (Return (), snd (callHooks cfg ''onNothingToPrepare'' NoArg st)))"

definition startPlaying :: "config \<Rightarrow> nat \<Rightarrow> playerState \<Rightarrow> unit outcome \<times> playerState" where
  "startPlaying cfg now st =
     (case nowPlaying st of
        None \<Rightarrow> (TypeError, st)
      | Some np \<Rightarrow>
          (let st1 = st\<lparr>nowPlaying := Some (np\<lparr>playbackStart := Some now\<rparr>)\<rparr>;
               st2 = snd (callHooks cfg ''onSongChange'' NoArg st1);
               songTimeout = add_number (parseInt (duration np)) (songDelayMs cfg)
           in (Return (), st2\<lparr>waiting := waiting st2 @ [SongTimer songTimeout]\<rparr>)))"

definition onPrepared :: "config \<Rightarrow> nat \<Rightarrow> bool \<Rightarrow> playerState \<Rightarrow> unit outcome \<times> playerState" where
  "onPrepared cfg now startPlayingNext st =
     (let st1 = snd (callHooks cfg ''onSongPrepared'' NoArg st) in
      if startPlayingNext then
        (case startPlaying cfg now st1 of
           (Return u, st2) \<Rightarrow> prepareNext cfg st2
         | (thrown, st2) \<Rightarrow> (thrown, st2))
      else prepareNext cfg st1)"

definition onPrepareError :: "config \<Rightarrow> playerState \<Rightarrow> unit outcome \<times> playerState" where
  "onPrepareError cfg st =
     (case nowPlaying st of
        None \<Rightarrow> (TypeError, st)
      | Some np \<Rightarrow>
          (Return (), removeFromQueue (id' np) (snd (callHooks cfg ''onSongPrepareError'' NoArg st))))"

definition onNextPrepared :: "config \<Rightarrow> playerState \<Rightarrow> unit outcome \<times> playerState" where
  "onNextPrepared cfg st = (Return (), snd (callHooks cfg ''onNextSongPrepared'' (IndexArg 0) st))"

definition onNextPrepareError :: "config \<Rightarrow> playerState \<Rightarrow> unit outcome \<times> playerState" where
  "onNextPrepareError cfg st =
     (case queue st of
        [] \<Rightarrow> (TypeError, st)
      | q # qs \<Rightarrow>
          (Return (),
           removeFromQueue (id' q) (snd (callHooks cfg ''onNextSongPrepareError'' (IndexArg 0) st))))"

definition onTimeout :: "config \<Rightarrow> playerState \<Rightarrow> unit outcome \<times> playerState" where
  "onTimeout cfg st =
     (case nowPlaying st of
        None \<Rightarrow> (TypeError, st)
      | Some np \<Rightarrow>
          onQueueModify cfg ((snd (callHooks cfg ''onSongEnd'' NoArg st))\<lparr>nowPlaying := None\<rparr>))"

text \<open>
  The environment runs the \<open>k\<close>-th callback the player is waiting for: a backend
  reports success or failure, or a timer expires. The entry leaves the waiting list.
  \<open>None\<close> says that there is no such callback.
\<close>

datatype signal = Succeeded | Errored | Expired

definition deliver ::
  "config \<Rightarrow> nat \<Rightarrow> nat \<Rightarrow> signal \<Rightarrow> playerState \<Rightarrow> (unit outcome \<times> playerState) option" where
  "deliver cfg now k sg st =
     (if k < length (waiting st) then
        (let st' = st\<lparr>waiting := take k (waiting st) @ drop (Suc k) (waiting st)\<rparr> in
         case (waiting st ! k, sg) of
           (PrepareNowPlaying b i startPlayingNext, Succeeded) \<Rightarrow>
             Some (onPrepared cfg now startPlayingNext st')
         | (PrepareNowPlaying b i startPlayingNext, Errored) \<Rightarrow> Some (onPrepareError cfg st')
         | (PrepareNext b i, Succeeded) \<Rightarrow> Some (onNextPrepared cfg st')
         | (PrepareNext b i, Errored) \<Rightarrow> Some (onNextPrepareError cfg st')
         | (SongTimer d, Expired) \<Rightarrow> Some (onTimeout cfg st')
         | _ \<Rightarrow> None)
      else None)"

text \<open>The entries for a song id in the queue and the now-playing slot together.\<close>

definition entries :: "jsval \<Rightarrow> playerState \<Rightarrow> song list" where
  "entries songID st =
     filter (\<lambda>x. strict_eq (id' x) songID)
       (queue st @ (case nowPlaying st of None \<Rightarrow> [] | Some np \<Rightarrow> [np]))"

text \<open>How often a hook was dispatched, and the delays of the timers that are armed.\<close>

definition dispatches :: "string \<Rightarrow> playerState \<Rightarrow> nat" where
  "dispatches h st = count_list (trace st) (Dispatched h)"

fun timerOf :: "pending \<Rightarrow> number list" where
  "timerOf (SongTimer d) = [d]"
| "timerOf p = []"

definition timers :: "playerState \<Rightarrow> number list" where
  "timers st = concat (map timerOf (waiting st))"

section \<open>Example data\<close>

text \<open>
  The song of the specification's scenario, a player with nothing queued, one with that
  song queued, a configuration with the backend \<open>local\<close> and no module, and one with
  three modules \<open>A\<close>, \<open>B\<close>, \<open>C\<close> whose \<open>preSongQueued\<close> hooks return
  \<open>false\<close>, the string \<open>err\<close> and the number 2.
\<close>

definition song1 :: song where
  "song1 = \<lparr>title = JStr ''T'', id' = JStr ''s1'', duration = JNum 1000, backend = ''local'',
            upVotes = [], downVotes = [], oldness = 0, playbackStart = None\<rparr>"

definition idlePlayer :: playerState where
  "idlePlayer = \<lparr>queue = [], nowPlaying = None, waiting = [], trace = []\<rparr>"

definition queuedPlayer :: playerState where
  "queuedPlayer = \<lparr>queue = [song1], nowPlaying = None, waiting = [], trace = []\<rparr>"

definition plainConfig :: config where
  "plainConfig = \<lparr>modules = [], backends = [''local''], songDelayMs = 500\<rparr>"

definition returning :: "jsval \<Rightarrow> module" where
  "returning v h = (if h = ''preSongQueued'' then Some (\<lambda>q np a. v) else None)"

definition vetoConfig :: config where
  "vetoConfig =
     \<lparr>modules = [(''A'', returning (JBool False)), (''B'', returning (JStr ''err'')),
                 (''C'', returning (JNum 2))],
      backends = [''local''], songDelayMs = 500\<rparr>"

text \<open>
  A song whose duration is 1000.5 ms (the ingestion computes a duration as seconds times
  1000, which need not be whole), and a player with that song queued. For the local
  backend: the probe of the
  specification's untagged file.
\<close>

definition halfSong :: song where
  "halfSong = song1\<lparr>id' := JStr ''s2'', duration := JNum (2001 / 2)\<rparr>"

definition halfPlayer :: playerState where
  "halfPlayer = \<lparr>queue = [halfSong], nowPlaying = None, waiting = [], trace = []\<rparr>"

definition untaggedFlac :: probeData where
  "untaggedFlac = \<lparr>file' = ''Compilation/Artist - Song Title.flac'', fileext = ''.flac'',
                  TITLE = JUndefined, ARTIST = JUndefined, ALBUM = JUndefined,
                  format_duration = 200, format_name = ''flac''\<rparr>"

section \<open>Basic facts about the player\<close>

lemma callHooks_queue: "queue (snd (callHooks cfg h a st)) = queue st"
  by (simp add: callHooks_def Let_def)
lemma callHooks_nowPlaying: "nowPlaying (snd (callHooks cfg h a st)) = nowPlaying st"
  by (simp add: callHooks_def Let_def)
lemma callHooks_waiting: "waiting (snd (callHooks cfg h a st)) = waiting st"
  by (simp add: callHooks_def Let_def)


lemma count_Invoked: "count_list (map (Invoked h') ks) (Dispatched h) = 0"
  by (induction ks) auto

lemma dispatches_callHooks:
  "dispatches h (snd (callHooks cfg h' a st)) = dispatches h st + (if h = h' then 1 else 0)"
  by (simp add: dispatches_def callHooks_def Let_def count_Invoked)

lemma dispatches_update:
  "dispatches h (st\<lparr>nowPlaying := n\<rparr>) = dispatches h st"
  "dispatches h (st\<lparr>queue := q\<rparr>) = dispatches h st"
  "dispatches h (st\<lparr>waiting := w\<rparr>) = dispatches h st"
  by (simp_all add: dispatches_def)

lemma timers_update:
  "timers (st\<lparr>nowPlaying := n\<rparr>) = timers st"
  "timers (st\<lparr>queue := q\<rparr>) = timers st"
  "timers (st\<lparr>trace := t\<rparr>) = timers st"
  "timers (st\<lparr>waiting := w\<rparr>) = concat (map timerOf w)"
  by (simp_all add: timers_def)

lemma dispatches_prepareSong: "dispatches h (snd (prepareSong cfg b p st)) = dispatches h st"
  by (simp add: dispatches_def prepareSong_def)

lemma dispatches_onQueueModify:
  "h \<noteq> ''onEndOfQueue'' \<Longrightarrow> dispatches h (snd (onQueueModify cfg st)) = dispatches h st"
  by (auto simp: onQueueModify_def dispatches_callHooks dispatches_prepareSong removeFromQueue_def
      dispatches_update split: list.splits option.splits)

lemma timers_callHooks: "timers (snd (callHooks cfg h a st)) = timers st"
  by (simp add: timers_def callHooks_waiting)

lemma prepareNext_facts:
  "nowPlaying (snd (prepareNext cfg st)) = nowPlaying st"
  "queue (snd (prepareNext cfg st)) = queue st"
  "timers (snd (prepareNext cfg st)) = timers st"
  "dispatches ''onSongChange'' (snd (prepareNext cfg st)) = dispatches ''onSongChange'' st"
  "dispatches ''onSongEnd'' (snd (prepareNext cfg st)) = dispatches ''onSongEnd'' st"
  "take (length (waiting st)) (waiting (snd (prepareNext cfg st))) = waiting st"
  by (auto simp: prepareNext_def prepareSong_def callHooks_nowPlaying callHooks_queue
      timers_callHooks dispatches_callHooks callHooks_waiting timers_update dispatches_update
      timers_def split: list.splits)

text \<open>
  A dispatch returns \<open>undefined\<close> or a module, never the value a hook returned, and
  the error callback of the now-playing preparation leaves the now-playing slot as it is.
\<close>

lemma find_module_result:
  "snd (find_module h call ms) = JUndefined \<or> (\<exists>k. snd (find_module h call ms) = JModule k)"
proof (induction ms)
  case Nil
  then show ?case by simp
next
  case (Cons km ms)
  obtain k m where km: "km = (k, m)" by (cases km)
  obtain ks r where r: "find_module h call ms = (ks, r)" by (cases "find_module h call ms")
  show ?case using Cons r by (cases "m h") (auto simp: km)
qed

lemma onPrepareError_nowPlaying: "nowPlaying (snd (onPrepareError cfg st)) = nowPlaying st"
  by (simp add: onPrepareError_def removeFromQueue_def callHooks_nowPlaying split: option.splits)

text \<open>Past the check of the fields, \<open>_addToQueue\<close> throws at \<open>req\<close>.\<close>

lemma addToQueue_ReferenceError:
  "truthy (song.title s) \<Longrightarrow> truthy (id' s) \<Longrightarrow> truthy (song.duration s) \<Longrightarrow>
   addToQueue cfg s st = (ReferenceError, st)"
  by (simp add: addToQueue_def req_body_userID_def)

section \<open>Basic facts about the local backend\<close>

lemma split_str_nonempty: "split_str c s \<noteq> []"
  by (induction s) (auto split: list.splits)

lemma hd_split_str: "hd (split_str c s) = takeWhile (\<lambda>x. x \<noteq> c) s"
  using split_str_nonempty by (induction s) (auto split: list.splits)

lemma tl_split_str:
  "tl (split_str c s) = (if c \<in> set s then split_str c (tl (dropWhile (\<lambda>x. x \<noteq> c) s)) else [])"
  using split_str_nonempty by (induction s) (auto split: list.splits)

lemma element_0: "element (map f (split_str c s)) 0 = JStr (f (takeWhile (\<lambda>x. x \<noteq> c) s))"
  using split_str_nonempty [of c s] hd_split_str [of c s]
  by (cases "split_str c s") (auto simp: element_def)

lemma element_1:
  "element (map f (split_str c s)) (Suc 0) =
     (if c \<in> set s then JStr (f (takeWhile (\<lambda>x. x \<noteq> c) (tl (dropWhile (\<lambda>x. x \<noteq> c) s))))
      else JUndefined)"
proof (cases "split_str c s")
  case Nil
  then show ?thesis using split_str_nonempty [of c s] by simp
next
  case (Cons a as)
  then have as: "as = (if c \<in> set s then split_str c (tl (dropWhile (\<lambda>x. x \<noteq> c) s)) else [])"
    using tl_split_str [of c s] by simp
  show ?thesis
  proof (cases "c \<in> set s")
    case False
    then show ?thesis using Cons as by (simp add: element_def)
  next
    case True
    let ?r = "tl (dropWhile (\<lambda>x. x \<noteq> c) s)"
    from True as have "as = split_str c ?r" by simp
    moreover obtain b bs where "split_str c ?r = b # bs"
      using split_str_nonempty [of c ?r] by (cases "split_str c ?r") auto
    moreover from this have "b = takeWhile (\<lambda>x. x \<noteq> c) ?r"
      using hd_split_str [of c ?r] by simp
    ultimately show ?thesis using Cons True by (simp add: element_def)
  qed
qed

lemma basename_plain_dir:
  assumes "d \<noteq> []" "CHR ''/'' \<notin> set d" "pre = [] \<or> last pre = CHR ''/''"
  shows "basename_plain (pre @ d) = d"
proof -
  have "dropWhile (\<lambda>c. c = CHR ''/'') (rev d @ rev pre) = rev d @ rev pre"
    using assms(1,2) by (cases "rev d") (auto simp: rev_eq_Cons_iff)
  moreover have "takeWhile (\<lambda>c. c \<noteq> CHR ''/'') (rev d @ rev pre) = rev d"
    using assms(2,3) by (cases pre rule: rev_cases) (auto simp: takeWhile_append)
  ultimately show ?thesis by (simp add: basename_plain_def)
qed

lemma dirname_file:
  assumes "d \<noteq> []" "CHR ''/'' \<notin> set d" "name \<noteq> []" "CHR ''/'' \<notin> set name"
  shows "dirname (pre @ d @ ''/'' @ name) = pre @ d"
proof -
  obtain c cs where cd: "pre @ d = c # cs" using assms(1) by (cases "pre @ d") auto
  have cne: "c = CHR ''/'' \<Longrightarrow> cs \<noteq> []"
    using cd assms(1,2) by (cases pre; cases d) auto
  have p: "pre @ d @ ''/'' @ name = c # (cs @ ''/'' @ name)" using cd by (simp flip: append_assoc)
  have 1: "dropWhile (\<lambda>x. x = CHR ''/'') (rev (cs @ ''/'' @ name)) = rev name @ ''/'' @ rev cs"
    using assms(3,4) by (cases "rev name") (auto simp: rev_eq_Cons_iff)
  have 2: "dropWhile (\<lambda>x. x \<noteq> CHR ''/'') (rev name @ ''/'' @ rev cs) = ''/'' @ rev cs"
    using assms(4) by (simp add: dropWhile_append)
  show ?thesis unfolding p dirname_def using cne cd
    by (simp only: list.case 1 2) (auto simp flip: append_assoc)
qed

lemma basename_stem:
  assumes "stem \<noteq> []" "CHR ''/'' \<notin> set (stem @ ext)" "pre = [] \<or> last pre = CHR ''/''"
  shows "basename (pre @ stem @ ext) ext = stem"
proof -
  have b: "basename_plain (pre @ (stem @ ext)) = stem @ ext"
    using assms by (intro basename_plain_dir) auto
  show ?thesis
  proof (cases "ext = []")
    case True
    then show ?thesis using b by (simp add: basename_def)
  next
    case False
    have "ext \<noteq> pre @ stem @ ext" using assms(1)
      by (metis append_self_conv2 append.assoc Nil_is_append_conv)
    then show ?thesis using False b assms(1) by (simp add: basename_def Let_def)
  qed
qed


text \<open>Nothing that can happen changes the state the module starts in.\<close>

lemma prepare_moduleThis: "prepare existsSync c sid moduleThis = (TypeError, moduleThis)"
  by (simp add: prepare_def moduleThis_def)



section \<open>Enqueue validation\<close>

text \<open>
  C10: a song whose title, id or duration is falsy (the empty string, 0, also
  \<open>undefined\<close>) is answered with the string 'required song fields not provided', and
  the player state is the one before the call.
\<close>

theorem addToQueue_falsy_field:
  "\<not> truthy (song.title s) \<or> \<not> truthy (id' s) \<or> \<not> truthy (song.duration s) \<Longrightarrow>
   addToQueue cfg s st = (Return (JStr ''required song fields not provided''), st)"
  by (simp add: addToQueue_def)

theorem addToQueue_falsy_field_witness:
  "\<not> truthy (song.duration (song1\<lparr>song.duration := JNum 0\<rparr>))
   \<and> addToQueue plainConfig (song1\<lparr>song.duration := JNum 0\<rparr>) queuedPlayer
       = (Return (JStr ''required song fields not provided''), queuedPlayer)"
  using addToQueue_falsy_field [of "song1\<lparr>song.duration := JNum 0\<rparr>" plainConfig queuedPlayer]
  by simp

text \<open>
  C2, on the code: for a song whose title, id and duration are present, whatever the
  request holds, \<open>_addToQueue\<close> throws \<open>ReferenceError\<close> where it reads
  \<open>req.body.userID\<close>; it does not return 'invalid userID'. The player state is the one
  before the call.
\<close>

theorem addToQueue_reads_req:
  "truthy (song.title s) \<Longrightarrow> truthy (id' s) \<Longrightarrow> truthy (song.duration s) \<Longrightarrow>
   addToQueue cfg s st = (ReferenceError, st)
   \<and> fst (addToQueue cfg s st) \<noteq> Return (JStr ''invalid userID'')"
  by (simp add: addToQueue_ReferenceError)

theorem addToQueue_reads_req_witness:
  "truthy (song.title song1) \<and> truthy (id' song1) \<and> truthy (song.duration song1)
   \<and> addToQueue plainConfig song1 idlePlayer = (ReferenceError, idlePlayer)
   \<and> fst (addToQueue plainConfig song1 idlePlayer) \<noteq> Return (JStr ''invalid userID'')"
  using addToQueue_reads_req [of song1 plainConfig idlePlayer]
  by (simp add: song1_def)

section \<open>Hook dispatch returns the module\<close>

text \<open>
  C3, evaluated on the modules \<open>A\<close>, \<open>B\<close>, \<open>C\<close> of the specification's example:
  the hooks of \<open>A\<close> and \<open>B\<close> run, in this order, and that of \<open>C\<close> does not; the
  result of the dispatch is the module \<open>B\<close> itself, as \<open>_.find\<close> returns the element
  found, and not the string \<open>err\<close> its hook returned.
\<close>

theorem callHooks_returns_module:
  "callHooks vetoConfig ''preSongQueued'' (SongArg song1) idlePlayer
     = (JModule ''B'',
        idlePlayer\<lparr>trace := [Dispatched ''preSongQueued'', Invoked ''preSongQueued'' ''A'',
                              Invoked ''preSongQueued'' ''B'']\<rparr>)"
  by (simp add: callHooks_def vetoConfig_def returning_def idlePlayer_def)

section \<open>A failed preparation of the now-playing song\<close>

text \<open>
  C1, evaluated on the queue holding \<open>song1\<close> alone: \<open>_onQueueModify\<close> moves the
  song to the now-playing slot and asks the backend to prepare it; when the backend
  reports an error, \<open>onSongPrepareError\<close> is dispatched and \<open>_removeFromQueue\<close>
  looks for the song in the queue, where it no longer is. The song stays in the
  now-playing slot, and nothing is waiting: no timer, no further preparation.
\<close>

theorem prepare_error_keeps_nowPlaying:
  "deliver plainConfig now 0 Errored (snd (onQueueModify plainConfig queuedPlayer))
     = Some (Return (),
             \<lparr>queue = [], nowPlaying = Some song1, waiting = [],
              trace = [Dispatched ''onSongPrepareError'']\<rparr>)"
  by (simp add: deliver_def onQueueModify_def prepareSong_def removeFromQueue_def
      onPrepareError_def callHooks_def plainConfig_def queuedPlayer_def song1_def)

section \<open>Enqueueing a song twice\<close>

text \<open>
  C9, on the code: for a song whose title, id and duration are present, the first
  enqueue throws \<open>ReferenceError\<close> at \<open>req\<close> and queues nothing, and so does the
  second: it is not answered with a duplicate rejection, and the entries for the song
  are those that were there before the two calls.
\<close>

theorem addToQueue_twice_throws:
  "truthy (song.title s) \<Longrightarrow> truthy (id' s) \<Longrightarrow> truthy (song.duration s) \<Longrightarrow>
   fst (addToQueue cfg s (snd (addToQueue cfg s st))) = ReferenceError
   \<and> entries (id' s) (snd (addToQueue cfg s (snd (addToQueue cfg s st)))) = entries (id' s) st"
  by (simp add: addToQueue_ReferenceError)

theorem addToQueue_twice_throws_witness:
  "truthy (song.title song1) \<and> truthy (id' song1) \<and> truthy (song.duration song1)
   \<and> fst (addToQueue plainConfig song1 (snd (addToQueue plainConfig song1 idlePlayer)))
       = ReferenceError
   \<and> entries (id' song1)
        (snd (addToQueue plainConfig song1 (snd (addToQueue plainConfig song1 idlePlayer))))
       = []"
  using addToQueue_twice_throws [of song1 plainConfig idlePlayer]
  by (simp add: song1_def idlePlayer_def entries_def)

section \<open>From the queue to the end of the song\<close>

text \<open>
  C4 as stated fails for a duration that is not an integer: the timer is
  \<open>parseInt(duration) + songDelayMs\<close>, and \<open>parseInt\<close> cuts 1000.5 down to 1000.
  With \<open>songDelayMs = 500\<close> the timer armed is 1500, not 1500.5.
\<close>

theorem playback_cycle_counterexample:
  "song.duration halfSong = JNum (2001 / 2)
   \<and> map_option (\<lambda>r. timers (snd r))
        (deliver plainConfig 7 0 Succeeded (snd (onQueueModify plainConfig halfPlayer)))
       = Some [Exact 1500]
   \<and> (2001 / 2 :: rat) + of_int (songDelayMs plainConfig) \<noteq> 1500"
  by (simp add: deliver_def onQueueModify_def prepareSong_def removeFromQueue_def
      onPrepared_def startPlaying_def callHooks_def prepareNext_def timers_def
      plainConfig_def halfPlayer_def halfSong_def song1_def toward_zero_def exact_def Let_def
      floor_eq_iff)

text \<open>
  C4, amended: with the now-playing slot empty, the song \<open>s\<close> at the head of the queue
  and its backend registered, \<open>_onQueueModify\<close> moves \<open>s\<close> to the now-playing slot
  and asks the backend to prepare it. When the backend then reports success,
  \<open>playbackStart\<close> is stamped, \<open>onSongChange\<close> is dispatched once and one timer is
  armed, of \<open>parseInt(duration) + songDelayMs\<close>: for a numeric duration from
  \<open>10^-6\<close> to \<open>2^53\<close> in magnitude that is the duration cut to an integer, plus
  \<open>songDelayMs\<close> (while the delay and the sum stay within \<open>2^53\<close>). When that timer
  expires, \<open>onSongEnd\<close> is dispatched once, and \<open>_onQueueModify\<close> runs on the state
  with the now-playing slot cleared; it dispatches no further \<open>onSongEnd\<close>.
\<close>

theorem playback_cycle:
  assumes np: "nowPlaying st = None" and q: "queue st = s # rest"
    and b: "backend s \<in> set (backends cfg)"
  shows "\<exists>st1 r2 st2 X.
      onQueueModify cfg st = (Return (), st1)
    \<and> nowPlaying st1 = Some s \<and> queue st1 = spliceFirst (id' s) rest
    \<and> waiting st1 = waiting st @ [PrepareNowPlaying (backend s) (id' s) True]
    \<and> deliver cfg now (length (waiting st)) Succeeded st1 = Some (r2, st2)
    \<and> nowPlaying st2 = Some (s\<lparr>playbackStart := Some now\<rparr>)
    \<and> dispatches ''onSongChange'' st2 = dispatches ''onSongChange'' st + 1
    \<and> timers st2 = timers st @ [add_number (parseInt (song.duration s)) (songDelayMs cfg)]
    \<and> (\<forall>x. song.duration s = JNum x \<longrightarrow> 1 / 10 ^ 6 \<le> \<bar>x\<bar> \<longrightarrow> \<bar>x\<bar> \<le> 2 ^ 53 \<longrightarrow>
            \<bar>songDelayMs cfg\<bar> \<le> 2 ^ 53 \<longrightarrow> \<bar>toward_zero x + songDelayMs cfg\<bar> \<le> 2 ^ 53 \<longrightarrow>
            timers st2 = timers st @ [Exact (toward_zero x + songDelayMs cfg)])
    \<and> take (Suc (length (waiting st))) (waiting st2) = waiting st @
         [SongTimer (add_number (parseInt (song.duration s)) (songDelayMs cfg))]
    \<and> deliver cfg now' (length (waiting st)) Expired st2 = Some (onQueueModify cfg X)
    \<and> nowPlaying X = None \<and> queue X = queue st2
    \<and> dispatches ''onSongEnd'' X = dispatches ''onSongEnd'' st2 + 1
    \<and> dispatches ''onSongEnd'' (snd (onQueueModify cfg X)) = dispatches ''onSongEnd'' st2 + 1"
proof -
  let ?p = "PrepareNowPlaying (backend s) (id' s) True"
  let ?t = "add_number (parseInt (song.duration s)) (songDelayMs cfg)"
  let ?st1 = "st\<lparr>nowPlaying := Some s, queue := spliceFirst (id' s) rest,
                 waiting := waiting st @ [?p]\<rparr>"
  have s1: "onQueueModify cfg st = (Return (), ?st1)"
    using np q b by (simp add: onQueueModify_def prepareSong_def removeFromQueue_def)
  let ?a = "snd (callHooks cfg ''onSongPrepared'' NoArg
              (st\<lparr>nowPlaying := Some s, queue := spliceFirst (id' s) rest\<rparr>))"
  let ?b = "snd (callHooks cfg ''onSongChange'' NoArg
              (?a\<lparr>nowPlaying := Some (s\<lparr>playbackStart := Some now\<rparr>)\<rparr>))"
  let ?c = "?b\<lparr>waiting := waiting ?b @ [SongTimer ?t]\<rparr>"
  have d2: "deliver cfg now (length (waiting st)) Succeeded ?st1 = Some (prepareNext cfg ?c)"
    by (simp add: deliver_def onPrepared_def startPlaying_def callHooks_nowPlaying Let_def)
  let ?st2 = "snd (prepareNext cfg ?c)"
  have wc: "waiting ?c = waiting st @ [SongTimer ?t]"
    by (simp add: callHooks_waiting)
  have tk: "take (Suc (length (waiting st))) (waiting ?st2) = waiting st @ [SongTimer ?t]"
    using prepareNext_facts(6) [of ?c cfg] by (simp add: wc)
  have np2: "nowPlaying ?st2 = Some (s\<lparr>playbackStart := Some now\<rparr>)"
    by (simp add: prepareNext_facts callHooks_nowPlaying)
  have ds: "dispatches ''onSongChange'' ?st2 = dispatches ''onSongChange'' st + 1"
    by (simp add: prepareNext_facts dispatches_callHooks dispatches_update)
  have tm: "timers ?st2 = timers st @ [?t]"
    by (simp add: prepareNext_facts timers_update callHooks_waiting timers_def [of st])
  have num: "\<forall>x. song.duration s = JNum x \<longrightarrow> 1 / 10 ^ 6 \<le> \<bar>x\<bar> \<longrightarrow> \<bar>x\<bar> \<le> 2 ^ 53 \<longrightarrow>
            \<bar>songDelayMs cfg\<bar> \<le> 2 ^ 53 \<longrightarrow> \<bar>toward_zero x + songDelayMs cfg\<bar> \<le> 2 ^ 53 \<longrightarrow>
            timers ?st2 = timers st @ [Exact (toward_zero x + songDelayMs cfg)]"
  proof (intro allI impI)
    fix x
    assume d: "song.duration s = JNum x" and lo: "1 / 10 ^ 6 \<le> \<bar>x\<bar>" and hi: "\<bar>x\<bar> \<le> 2 ^ 53"
      and dl: "\<bar>songDelayMs cfg\<bar> \<le> 2 ^ 53" and sm: "\<bar>toward_zero x + songDelayMs cfg\<bar> \<le> 2 ^ 53"
    from lo have "x \<noteq> 0" by auto
    then have "?t = Exact (toward_zero x + songDelayMs cfg)"
      using d lo hi dl sm by (simp add: exact_def)
    then show "timers ?st2 = timers st @ [Exact (toward_zero x + songDelayMs cfg)]"
      using tm by simp
  qed
  have len: "length (waiting st) < length (waiting ?st2)"
    using arg_cong [OF tk, of length] by (simp split: if_splits add: min_def)
  have nth: "waiting ?st2 ! length (waiting st) = SongTimer ?t"
    using arg_cong [OF tk, of "\<lambda>xs. xs ! length (waiting st)"] len by (simp add: nth_append)
  let ?st2' = "?st2\<lparr>waiting := take (length (waiting st)) (waiting ?st2) @
                   drop (Suc (length (waiting st))) (waiting ?st2)\<rparr>"
  let ?X = "(snd (callHooks cfg ''onSongEnd'' NoArg ?st2'))\<lparr>nowPlaying := None\<rparr>"
  have d3: "deliver cfg now' (length (waiting st)) Expired ?st2 = Some (onQueueModify cfg ?X)"
    using len nth np2 by (simp add: deliver_def onTimeout_def Let_def)
  have x1: "nowPlaying ?X = None" by simp
  have x2: "queue ?X = queue ?st2" by (simp add: callHooks_queue)
  have x3: "dispatches ''onSongEnd'' ?X = dispatches ''onSongEnd'' ?st2 + 1"
    by (simp add: dispatches_callHooks dispatches_update)
  have x4: "dispatches ''onSongEnd'' (snd (onQueueModify cfg ?X)) = dispatches ''onSongEnd'' ?st2 + 1"
    using x3 by (simp add: dispatches_onQueueModify)
  have d2': "deliver cfg now (length (waiting st)) Succeeded ?st1 = Some (fst (prepareNext cfg ?c), ?st2)"
    using d2 by simp
  have a1: "nowPlaying ?st1 = Some s" by simp
  have a2: "queue ?st1 = spliceFirst (id' s) rest" by simp
  have a3: "waiting ?st1 = waiting st @ [?p]" by simp
  show ?thesis
    apply (rule exI [of _ ?st1])
    apply (rule exI [of _ "fst (prepareNext cfg ?c)"])
    apply (rule exI [of _ ?st2])
    apply (rule exI [of _ ?X])
    apply (intro conjI)
    apply (rule s1 a1 a2 a3 d2' np2 ds tm num tk d3 x1 x2 x3 x4)+
    done
qed

theorem playback_cycle_witness:
  "\<exists>st1 r2 st2 X.
      onQueueModify plainConfig queuedPlayer = (Return (), st1)
    \<and> nowPlaying st1 = Some song1
    \<and> deliver plainConfig 7 0 Succeeded st1 = Some (r2, st2)
    \<and> nowPlaying st2 = Some (song1\<lparr>playbackStart := Some 7\<rparr>)
    \<and> timers st2 = [Exact 1500]
    \<and> deliver plainConfig 9 0 Expired st2 = Some (onQueueModify plainConfig X)
    \<and> nowPlaying X = None
    \<and> dispatches ''onSongEnd'' (snd (onQueueModify plainConfig X))
         = dispatches ''onSongEnd'' st2 + 1"
proof -
  have a: "nowPlaying queuedPlayer = None" by (simp add: queuedPlayer_def)
  have b: "queue queuedPlayer = song1 # []" by (simp add: queuedPlayer_def)
  have c: "backend song1 \<in> set (backends plainConfig)"
    by (simp add: song1_def plainConfig_def)
  have w: "length (waiting queuedPlayer) = 0" "timers queuedPlayer = []"
    by (simp_all add: queuedPlayer_def timers_def)
  have d: "song.duration song1 = JNum 1000" "songDelayMs plainConfig = 500"
    "toward_zero 1000 = 1000"
    by (simp_all add: song1_def plainConfig_def toward_zero_def)
  from playback_cycle [OF a b c, of 7 9] obtain st1 r2 st2 X where
    1: "onQueueModify plainConfig queuedPlayer = (Return (), st1)"
    and 2: "nowPlaying st1 = Some song1"
    and 3: "deliver plainConfig 7 (length (waiting queuedPlayer)) Succeeded st1 = Some (r2, st2)"
    and 4: "nowPlaying st2 = Some (song1\<lparr>playbackStart := Some 7\<rparr>)"
    and 5: "\<forall>x. song.duration song1 = JNum x \<longrightarrow> 1 / 10 ^ 6 \<le> \<bar>x\<bar> \<longrightarrow> \<bar>x\<bar> \<le> 2 ^ 53 \<longrightarrow>
            \<bar>songDelayMs plainConfig\<bar> \<le> 2 ^ 53 \<longrightarrow>
            \<bar>toward_zero x + songDelayMs plainConfig\<bar> \<le> 2 ^ 53 \<longrightarrow>
            timers st2 = timers queuedPlayer @ [Exact (toward_zero x + songDelayMs plainConfig)]"
    and 6: "deliver plainConfig 9 (length (waiting queuedPlayer)) Expired st2
              = Some (onQueueModify plainConfig X)"
    and 7: "nowPlaying X = None"
    and 8: "dispatches ''onSongEnd'' (snd (onQueueModify plainConfig X))
              = dispatches ''onSongEnd'' st2 + 1"
    by blast
  from 5 [rule_format, of 1000] have t: "timers st2 = [Exact 1500]"
    by (simp add: d w)
  show ?thesis using 1 2 3 4 t 6 7 8 unfolding w by blast
qed

section \<open>Search on the module's \<open>this\<close>\<close>

text \<open>
  C5, on the code: when the store returns at least one item, the callback of the query
  throws \<open>TypeError\<close> at the first item, where it reads
  \<open>self.config.searchResultCnt\<close>; no result set, capped or not, reaches the caller.
\<close>

theorem search_throws: "search (item # items) moduleThis = TypeError"
  by (simp add: search_def moduleThis_def)

section \<open>Metadata guessed from the path\<close>

text \<open>
  C6 as stated fails for a title that holds a dash: the base name is split at every
  \<open>-\<close>, not at the first \<open>" - "\<close>, and the title is the second piece only.
\<close>

theorem guessMetadata_counterexample:
  "metadata.title (guessMetadataFromPath ''Compilation/Artist - Song - Title.flac'' ''.flac'')
     = JStr ''Song''
   \<and> metadata.title (guessMetadataFromPath ''Compilation/Artist - Song - Title.flac'' ''.flac'')
     \<noteq> JStr ''Song - Title''"
  by (simp add: guessMetadataFromPath_def basename_def basename_plain_def dirname_def
      element_def trim_def is_ws_def Let_def)



text \<open>
  C6, amended: for a file \<open>album/stem.ext\<close> (the probe's extension at the end of the
  path, the directory name and the stem not empty), a tag that is absent (or otherwise
  falsy) is replaced by the guess from the path: the artist is the stem before its first
  \<open>-\<close>, trimmed; the title is the text between the first and the second \<open>-\<close>
  (up to the end when there is one dash only), trimmed, and \<open>undefined\<close> when the
  stem has no dash; the album is the name of the containing directory.
\<close>

theorem insertSong_fallback:
  assumes path: "file' pd = pre @ d @ ''/'' @ stem @ fileext pd"
    and pre: "pre = [] \<or> last pre = CHR ''/''"
    and d: "d \<noteq> []" "CHR ''/'' \<notin> set d"
    and stem: "stem \<noteq> []" "CHR ''/'' \<notin> set (stem @ fileext pd)"
  shows "(\<not> truthy (ARTIST pd) \<longrightarrow>
            songDoc.artist (insertSong pd) = JStr (trim (takeWhile (\<lambda>c. c \<noteq> CHR ''-'') stem)))
       \<and> (\<not> truthy (TITLE pd) \<longrightarrow>
            songDoc.title (insertSong pd) =
              (if CHR ''-'' \<in> set stem then
                 JStr (trim (takeWhile (\<lambda>c. c \<noteq> CHR ''-'')
                               (tl (dropWhile (\<lambda>c. c \<noteq> CHR ''-'') stem))))
               else JUndefined))
       \<and> (\<not> truthy (ALBUM pd) \<longrightarrow> songDoc.album (insertSong pd) = JStr d)"
proof -
  have b: "basename (file' pd) (fileext pd) = stem"
    using basename_stem [of stem "fileext pd" "pre @ d @ ''/''"] stem path by simp
  have n: "stem @ fileext pd \<noteq> []" using stem(1) by simp
  have a: "basename_plain (dirname (file' pd)) = d"
    using dirname_file [OF d n stem(2), of pre] basename_plain_dir [OF d pre] path by simp
  show ?thesis
    by (simp add: insertSong_def guessMetadataFromPath_def Let_def or_else_def b a
        element_0 element_1)
qed

theorem insertSong_fallback_witness:
  "songDoc.artist (insertSong untaggedFlac) = JStr ''Artist''
   \<and> songDoc.title (insertSong untaggedFlac) = JStr ''Song Title''
   \<and> songDoc.album (insertSong untaggedFlac) = JStr ''Compilation''"
  using insertSong_fallback [of untaggedFlac "[]" "''Compilation''" "''Artist - Song Title''"]
  by (simp add: untaggedFlac_def trim_def is_ws_def)


section \<open>Preparation on the module's \<open>this\<close>\<close>

text \<open>
  C7, on the code: two calls of \<open>prepare\<close> for the same song, one after the other.
  Each throws \<open>TypeError\<close> where it reads \<open>self.songsPreparing[song.songId]\<close>: no
  handle is attached, and no callback is called, so the second caller gets no
  "already preparing" signal.
\<close>

theorem prepare_throws:
  "prepare existsSync c1 sid moduleThis = (TypeError, moduleThis)
   \<and> prepare existsSync c2 sid (snd (prepare existsSync c1 sid moduleThis))
       = (TypeError, moduleThis)
   \<and> handles moduleThis = [] \<and> calls moduleThis = []"
  by (simp add: prepare_moduleThis) (simp add: moduleThis_def)


end
